theory Spec2Isabelle
  imports Main
begin

section \<open>Values, text and header containers\<close>

text \<open>
  JSON documents as the handlers see them after decoding: Python's \<open>None\<close>, \<open>bool\<close>,
  \<open>int\<close>, \<open>str\<close>, \<open>list\<close> and \<open>dict\<close>. A \<open>dict\<close> is an association list in
  insertion order. A \<open>float\<close> is a finite binary fraction (mantissa and exponent) or
  one of the three non-finite values, which \<open>json.loads\<close> accepts (\<open>NaN\<close>, \<open>Infinity\<close>,
  an overflowing literal such as \<open>1e999\<close>).
\<close>

datatype pyfloat =
    Finite int int
  | NaN
  | PosInf
  | NegInf

datatype jv =
    JNull
  | JBool bool
  | JInt int
  | JFloat pyfloat
  | JStr string
  | JArr "jv list"
  | JObj "(string \<times> jv) list"

text \<open>Python truthiness, as used by \<open>if json_data:\<close> and by the walrus guards.\<close>

fun truthy :: "jv \<Rightarrow> bool" where
  "truthy JNull = False"
| "truthy (JBool b) = b"
| "truthy (JInt n) = (n \<noteq> 0)"
| "truthy (JFloat (Finite m ex)) = (m \<noteq> 0)"
| "truthy (JFloat NaN) = True"
| "truthy (JFloat PosInf) = True"
| "truthy (JFloat NegInf) = True"
| "truthy (JStr s) = (s \<noteq> [])"
| "truthy (JArr xs) = (xs \<noteq> [])"
| "truthy (JObj kvs) = (kvs \<noteq> [])"

text \<open>\<open>d[k] = v\<close> on a dict: an existing key keeps its place, a new key goes last.\<close>

fun dict_set :: "(string \<times> jv) list \<Rightarrow> string \<Rightarrow> jv \<Rightarrow> (string \<times> jv) list" where
  "dict_set [] k v = [(k, v)]"
| "dict_set ((k', v') # kvs) k v =
     (if k' = k then (k, v) # kvs else (k', v') # dict_set kvs k v)"

text \<open>\<open>s.startswith(p)\<close> and the substring test \<open>p in s\<close>.\<close>

definition startswith :: "string \<Rightarrow> string \<Rightarrow> bool" where
  "startswith p s = (take (length p) s = p)"

fun contains :: "string \<Rightarrow> string \<Rightarrow> bool" where
  "contains p [] = (p = [])"
| "contains p (c # cs) = (startswith p (c # cs) \<or> contains p cs)"

text \<open>
  \<open>str.strip()\<close> removes leading and trailing whitespace; these are the whitespace
  characters of Python below code point 256.
\<close>

definition py_isspace :: "char \<Rightarrow> bool" where
  "py_isspace c =
     (c = CHR 0x09 \<or> c = CHR 0x0A \<or> c = CHR 0x0B \<or> c = CHR 0x0C \<or> c = CHR 0x0D \<or>
      c = CHR 0x1C \<or> c = CHR 0x1D \<or> c = CHR 0x1E \<or> c = CHR 0x1F \<or> c = CHR 0x20 \<or>
      c = CHR 0x85 \<or> c = CHR 0xA0)"

definition py_strip :: "string \<Rightarrow> string" where
  "py_strip s = rev (dropWhile py_isspace (rev (dropWhile py_isspace s)))"

text \<open>\<open>s.split('\n')\<close>: always at least one piece.\<close>

fun split_nl :: "string \<Rightarrow> string list" where
  "split_nl [] = [[]]"
| "split_nl (c # cs) =
     (if c = CHR 0x0A then [] # split_nl cs
      else (case split_nl cs of
              [] \<Rightarrow> [[c]]
            | l # ls \<Rightarrow> (c # l) # ls))"

text \<open>
  \<open>str.lower()\<close> on header names. Header names are ASCII tokens, so only \<open>A\<close>--\<open>Z\<close> move.
\<close>

definition ascii_lower :: "char \<Rightarrow> char" where
  "ascii_lower c =
     (case map_of (zip ''ABCDEFGHIJKLMNOPQRSTUVWXYZ'' ''abcdefghijklmnopqrstuvwxyz'') c of
        Some d \<Rightarrow> d
      | None \<Rightarrow> c)"

definition lower :: "string \<Rightarrow> string" where
  "lower s = map ascii_lower s"

type_synonym raw_headers = "(string \<times> string) list"

text \<open>
  The inbound header container is Starlette's: the server hands the names over in
  lower case, and \<open>get\<close>, \<open>in\<close> and \<open>del\<close> lower the key they are given and compare it
  with the stored names. \<open>get\<close> answers the first match.
\<close>

definition asgi_headers :: "raw_headers \<Rightarrow> raw_headers" where
  "asgi_headers wire = map (\<lambda>(k, v). (lower k, v)) wire"

definition starlette_get :: "raw_headers \<Rightarrow> string \<Rightarrow> string option" where
  "starlette_get hs key = map_of hs (lower key)"

definition starlette_contains :: "raw_headers \<Rightarrow> string \<Rightarrow> bool" where
  "starlette_contains hs key = (map_of hs (lower key) \<noteq> None)"

definition starlette_del :: "raw_headers \<Rightarrow> string \<Rightarrow> raw_headers" where
  "starlette_del hs key = filter (\<lambda>kv. fst kv \<noteq> lower key) hs"

text \<open>
  The upstream response's header container is httpx's: lookup ignores case on both
  sides and joins the values of all matching lines with a comma and a space.
\<close>

fun join_values :: "string list \<Rightarrow> string" where
  "join_values [] = []"
| "join_values [v] = v"
| "join_values (v # w # vs) = v @ '', '' @ join_values (w # vs)"

definition httpx_get :: "raw_headers \<Rightarrow> string \<Rightarrow> string option" where
  "httpx_get hs key =
     (case map snd (filter (\<lambda>kv. lower (fst kv) = lower key) hs) of
        [] \<Rightarrow> None
      | v # vs \<Rightarrow> Some (join_values (v # vs)))"

section \<open>The proxy handler\<close>

definition CONTEXT7_BASE_URL :: string where
  "CONTEXT7_BASE_URL = ''https://mcp.context7.com/mcp''"

definition USER_AGENT :: string where
  "USER_AGENT = ''Mozilla/5.0 (Macintosh; Intel Mac OS X 10_15_7) AppleWebKit/537.36 (KHTML, like Gecko) Chrome/139.0.0.0 Safari/537.36''"

record inbound_request =
  wire_headers :: raw_headers
  req_body :: string

record upstream_response =
  status_code :: int
  resp_headers :: raw_headers
  resp_text :: string

text \<open>What \<open>http_client.post\<close> does: raise an \<open>httpx.HTTPError\<close> (timeout, connection
  error), raise something else, or return a response.\<close>

datatype post_outcome =
    PostHTTPError string
  | PostOtherError string
  | PostReturned upstream_response

record outbound_call =
  call_url :: string
  call_json :: jv
  call_headers :: "string \<rightharpoonup> string"

text \<open>A \<open>JSONResponse\<close>: its content, its status and the \<open>headers=\<close> argument.\<close>

record json_response =
  content :: jv
  status :: int
  headers :: "string \<rightharpoonup> string"

text \<open>The handler returns a response or raises \<open>HTTPException(status_code, detail)\<close>.\<close>

datatype handler_result =
    Returned json_response
  | Raised int string

text \<open>
  What \<open>eval\<close> hands back: an object made of \<open>None\<close>, booleans, numbers, strings,
  lists and dicts, given as such, or any other object (a set, a function, ...), which
  \<open>JSONResponse\<close> cannot render, given by its truthiness and the message of the
  rendering error.
\<close>

datatype pyobj =
    Json jv
  | Unserialisable bool string

fun obj_truthy :: "pyobj \<Rightarrow> bool" where
  "obj_truthy (Json v) = truthy v"
| "obj_truthy (Unserialisable b m) = b"

text \<open>
  The interpreter, the JSON library and the network are not code of this repository; the
  handler is modelled over them. \<open>json_loads\<close> answers the decoded value or the text of
  the exception; \<open>py_eval\<close> answers \<open>None\<close> when \<open>eval\<close> raises. Side effects of \<open>eval\<close>
  are outside the model. \<open>render_error\<close> is what the \<open>JSONResponse\<close> constructor does
  with its content: \<open>None\<close> when the content renders, the text of the exception when it
  does not (a non-finite float, which the renderer refuses, or a string that does not
  encode). \<open>status_error_str\<close> is \<open>str(e)\<close> of the exception raised by
  \<open>raise_for_status\<close>.
\<close>

record env =
  json_loads :: "string \<Rightarrow> string + jv"
  py_eval :: "string \<Rightarrow> pyobj option"
  render_error :: "jv \<Rightarrow> string option"
  http_post :: "outbound_call \<Rightarrow> post_outcome"
  status_error_str :: "upstream_response \<Rightarrow> string"

definition py_type_name :: "jv \<Rightarrow> string" where
  "py_type_name v =
     (case v of
        JNull \<Rightarrow> ''NoneType''
      | JBool b \<Rightarrow> ''bool''
      | JInt n \<Rightarrow> ''int''
      | JFloat f \<Rightarrow> ''float''
      | JStr s \<Rightarrow> ''str''
      | JArr xs \<Rightarrow> ''list''
      | JObj kvs \<Rightarrow> ''dict'')"

text \<open>Lines 68--77: the outbound headers, built fresh, plus the session id.\<close>

definition session_header :: "raw_headers \<Rightarrow> (string \<rightharpoonup> string) \<Rightarrow> string \<Rightarrow> (string \<rightharpoonup> string)" where
  "session_header request_headers proxy_headers name =
     (case starlette_get request_headers name of
        None \<Rightarrow> proxy_headers
      | Some sess_id \<Rightarrow>
          if sess_id \<noteq> [] then proxy_headers(''mcp-session-id'' \<mapsto> sess_id)
          else proxy_headers)"

definition build_proxy_headers :: "raw_headers \<Rightarrow> (string \<rightharpoonup> string)" where
  "build_proxy_headers request_headers =
     session_header request_headers
       (session_header request_headers
          [''Content-Type'' \<mapsto> ''application/json'',
           ''Accept'' \<mapsto> ''application/json, text/event-stream'',
           ''User-Agent'' \<mapsto> USER_AGENT]
          ''MCP-Session-Id'')
       ''mcp-session-id''"

text \<open>Lines 108--117: \<open>eval\<close> first, \<open>json.loads\<close> when it raises, \<open>None\<close> when both raise.\<close>

definition decode_payload :: "env \<Rightarrow> string \<Rightarrow> pyobj option" where
  "decode_payload e json_str =
     (case py_eval e json_str of
        Some v \<Rightarrow> Some v
      | None \<Rightarrow>
          (case json_loads e json_str of
             Inr v \<Rightarrow> Some (Json v)
           | Inl msg \<Rightarrow> None))"

text \<open>Lines 104--117: the scan; \<open>break\<close> on a decoded line, \<open>continue\<close> otherwise.\<close>

fun sse_scan :: "env \<Rightarrow> string list \<Rightarrow> pyobj option" where
  "sse_scan e [] = None"
| "sse_scan e (line # rest) =
     (if startswith ''data: '' line then
        (case decode_payload e (drop 6 line) of
           Some v \<Rightarrow> Some v
         | None \<Rightarrow> sse_scan e rest)
      else sse_scan e rest)"

text \<open>Lines 120--124: the session id of the upstream response, lower-case name first.\<close>

definition response_session :: "raw_headers \<Rightarrow> (string \<rightharpoonup> string) \<Rightarrow> string \<Rightarrow> (string \<rightharpoonup> string)" where
  "response_session hs response_headers name =
     (case httpx_get hs name of
        None \<Rightarrow> response_headers
      | Some sess_id \<Rightarrow>
          if sess_id \<noteq> [] then response_headers(''mcp-session-id'' \<mapsto> sess_id)
          else response_headers)"

definition sse_response_headers :: "raw_headers \<Rightarrow> (string \<rightharpoonup> string)" where
  "sse_response_headers hs =
     response_session hs (response_session hs Map.empty ''mcp-session-id'') ''Mcp-Session-Id''"

definition parse_failure :: "string \<Rightarrow> json_response" where
  "parse_failure response_text =
     \<lparr>content = JObj [(''error'', JStr ''Failed to parse streaming response''),
                      (''raw'', JStr response_text)],
      status = 500,
      headers = Map.empty\<rparr>"

text \<open>
  \<open>JSONResponse(content, status_code, headers)\<close> on a decoded value, lines 126--130 and
  147--151. The constructor renders the content; it sits inside the handler's \<open>try\<close> and
  outside the inner ones, so a rendering error reaches the last \<open>except\<close> and becomes
  the 500 exception.
\<close>

definition json_response_of :: "env \<Rightarrow> jv \<Rightarrow> int \<Rightarrow> (string \<rightharpoonup> string) \<Rightarrow> handler_result" where
  "json_response_of e v st hs =
     (case render_error e v of
        None \<Rightarrow> Returned \<lparr>content = v, status = st, headers = hs\<rparr>
      | Some msg \<Rightarrow> Raised 500 (''Internal server error: '' @ msg))"

text \<open>
  Lines 95--135. The fallback content of line 135 is two strings, the second decoded from
  the upstream bytes, and always renders.
\<close>

definition normalize_sse :: "env \<Rightarrow> upstream_response \<Rightarrow> handler_result" where
  "normalize_sse e r =
     (let json_data = sse_scan e (split_nl (py_strip (resp_text r)));
          response_headers = sse_response_headers (resp_headers r)
      in case json_data of
           None \<Rightarrow> Returned (parse_failure (resp_text r))
         | Some obj \<Rightarrow>
             if obj_truthy obj then
               (case obj of
                  Json v \<Rightarrow> json_response_of e v (status_code r) response_headers
                | Unserialisable b msg \<Rightarrow> Raised 500 (''Internal server error: '' @ msg))
             else Returned (parse_failure (resp_text r)))"

text \<open>
  Lines 136--151: the other branch. A decode error leaves the empty dict in place, and
  so does any content type other than the exact string; the empty dict always renders.
\<close>

definition normalize_json :: "env \<Rightarrow> upstream_response \<Rightarrow> handler_result" where
  "normalize_json e r =
     (if httpx_get (resp_headers r) ''Content-Type'' = Some ''application/json'' then
        (case json_loads e (resp_text r) of
           Inr v \<Rightarrow> json_response_of e v (status_code r) Map.empty
         | Inl msg \<Rightarrow>
             Returned \<lparr>content = JObj [], status = status_code r, headers = Map.empty\<rparr>)
      else Returned \<lparr>content = JObj [], status = status_code r, headers = Map.empty\<rparr>)"

text \<open>Lines 93--151: the branch on the content type.\<close>

definition content_type :: "upstream_response \<Rightarrow> string" where
  "content_type r =
     (case httpx_get (resp_headers r) ''content-type'' of
        None \<Rightarrow> []
      | Some v \<Rightarrow> v)"

definition normalize_response :: "env \<Rightarrow> upstream_response \<Rightarrow> handler_result" where
  "normalize_response e r =
     (if contains ''text/event-stream'' (content_type r) then normalize_sse e r
      else normalize_json e r)"

text \<open>\<open>raise_for_status\<close> passes the 2xx responses and raises on every other status.\<close>

definition is_success :: "int \<Rightarrow> bool" where
  "is_success st = (200 \<le> st \<and> st \<le> 299)"

text \<open>
  Lines 88--151 and the two \<open>except\<close> clauses: the logging of a 400 decodes the body
  first, and a decode error there is not an \<open>httpx.HTTPError\<close>.
\<close>

definition handle_response :: "env \<Rightarrow> upstream_response \<Rightarrow> handler_result" where
  "handle_response e r =
     (case (if status_code r = 400 then json_loads e (resp_text r) else Inr JNull) of
        Inl msg \<Rightarrow> Raised 500 (''Internal server error: '' @ msg)
      | Inr logged \<Rightarrow>
          if is_success (status_code r) then normalize_response e r
          else Raised 500 (''Error forwarding request: '' @ status_error_str e r))"

text \<open>Lines 62--87: the target, the outbound headers and the body, as passed to \<open>post\<close>.\<close>

definition outbound :: "inbound_request \<Rightarrow> jv \<Rightarrow> outbound_call" where
  "outbound req request_data =
     (let hs = asgi_headers (wire_headers req);
          request_url =
            (case starlette_get hs ''centian-url'' of
               None \<Rightarrow> CONTEXT7_BASE_URL
             | Some u \<Rightarrow> u);
          request_headers =
            (if starlette_contains hs ''centian-url'' then starlette_del hs ''centian-url''
             else hs)
      in \<lparr>call_url = request_url,
          call_json = request_data,
          call_headers = build_proxy_headers request_headers\<rparr>)"

text \<open>
  The handler, lines 56--163, with the upstream calls it made. \<open>request_data.get\<close>
  exists on a dict only; on any other value the attribute error is caught last.
\<close>

definition proxy_mcp_request :: "env \<Rightarrow> inbound_request \<Rightarrow> outbound_call list \<times> handler_result" where
  "proxy_mcp_request e req =
     (case json_loads e (req_body req) of
        Inl msg \<Rightarrow> ([], Raised 500 (''Internal server error: '' @ msg))
      | Inr request_data \<Rightarrow>
          (case request_data of
             JObj kvs \<Rightarrow>
               (let call = outbound req request_data
                in case http_post e call of
                     PostHTTPError msg \<Rightarrow>
                       ([call], Raised 500 (''Error forwarding request: '' @ msg))
                   | PostOtherError msg \<Rightarrow>
                       ([call], Raised 500 (''Internal server error: '' @ msg))
                   | PostReturned r \<Rightarrow> ([call], handle_response e r))
           | _ \<Rightarrow>
               ([], Raised 500 (''Internal server error: '' @ [CHR 0x27] @ py_type_name request_data
                                @ [CHR 0x27] @ '' object has no attribute '' @ [CHR 0x27] @ ''get''
                                @ [CHR 0x27]))))"

text \<open>The framework answers a raised \<open>HTTPException\<close> with its status and its detail.\<close>

definition deliver :: "handler_result \<Rightarrow> json_response" where
  "deliver res =
     (case res of
        Returned resp \<Rightarrow> resp
      | Raised st detail \<Rightarrow>
          \<lparr>content = JObj [(''detail'', JStr detail)], status = st, headers = Map.empty\<rparr>)"

section \<open>The payload transformer\<close>

text \<open>The exceptions the subscripts and membership tests of \<open>process\<close> can raise.\<close>

datatype pyexc =
    KeyError string
  | TypeError

text \<open>\<open>obj[key]\<close> for a string key: only a dict can be subscripted by a string.\<close>

definition py_getitem :: "jv \<Rightarrow> string \<Rightarrow> pyexc + jv" where
  "py_getitem obj key =
     (case obj of
        JObj kvs \<Rightarrow>
          (case map_of kvs key of
             None \<Rightarrow> Inl (KeyError key)
           | Some v \<Rightarrow> Inr v)
      | _ \<Rightarrow> Inl TypeError)"

text \<open>
  \<open>key in obj\<close> for a string key: a key of a dict, an element of a list, a substring of
  a string; the other values are not containers.
\<close>

definition py_in :: "string \<Rightarrow> jv \<Rightarrow> pyexc + bool" where
  "py_in key obj =
     (case obj of
        JObj kvs \<Rightarrow> Inr (map_of kvs key \<noteq> None)
      | JArr xs \<Rightarrow> Inr (JStr key \<in> set xs)
      | JStr s \<Rightarrow> Inr (contains key s)
      | _ \<Rightarrow> Inl TypeError)"

text \<open>\<open>obj[key] = v\<close> for a string key, answering the updated object.\<close>

definition py_setitem :: "jv \<Rightarrow> string \<Rightarrow> jv \<Rightarrow> pyexc + jv" where
  "py_setitem obj key v =
     (case obj of
        JObj kvs \<Rightarrow> Inr (JObj (dict_set kvs key v))
      | _ \<Rightarrow> Inl TypeError)"

definition and_then :: "pyexc + 'a \<Rightarrow> ('a \<Rightarrow> pyexc + 'b) \<Rightarrow> pyexc + 'b" where
  "and_then r f = (case r of Inl ex \<Rightarrow> Inl ex | Inr x \<Rightarrow> f x)"

definition transformer_result :: "jv \<Rightarrow> jv" where
  "transformer_result payload =
     JObj [(''status'', JInt 200),
           (''payload'', payload),
           (''error'', JNull),
           (''metadata'', JObj [(''processor_name'', JStr ''payload_transformer''),
                                (''modifications'', JArr [])])]"

text \<open>
  Lines 33--36, on the payload. The dicts are changed in place, so the change to the
  arguments is seen through \<open>params\<close> and through the payload.
\<close>

definition add_header :: "jv \<Rightarrow> pyexc + jv" where
  "add_header payload =
     and_then (py_getitem payload ''params'') (\<lambda>params.
     and_then (py_in ''arguments'' params) (\<lambda>has_arguments.
     and_then (if \<not> has_arguments then py_setitem params ''arguments'' (JObj [])
               else Inr params) (\<lambda>params1.
     and_then (py_getitem params1 ''arguments'') (\<lambda>arguments.
     and_then (py_setitem arguments ''x-processor'' (JStr ''payload_transformer''))
       (\<lambda>arguments1.
     and_then (py_setitem params1 ''arguments'' arguments1) (\<lambda>params2.
     py_setitem payload ''params'' params2))))))"

text \<open>\<open>process\<close>, lines 30--50. The list \<open>modifications\<close> is computed and never used.\<close>

definition process :: "jv \<Rightarrow> pyexc + jv" where
  "process event =
     and_then (py_getitem event ''payload'') (\<lambda>payload.
     and_then (py_in ''params'' payload) (\<lambda>has_params.
     and_then (if has_params then add_header payload else Inr payload) (\<lambda>payload1.
     Inr (transformer_result payload1))))"

text \<open>
  \<open>main\<close>, lines 52--73, from the decoded event to the printed result; \<open>describe\<close> is
  \<open>str(e)\<close>.
\<close>

definition main_result :: "(pyexc \<Rightarrow> string) \<Rightarrow> jv \<Rightarrow> jv" where
  "main_result describe event =
     (case process event of
        Inr result \<Rightarrow> result
      | Inl ex \<Rightarrow>
          JObj [(''status'', JInt 500),
                (''payload'', JObj []),
                (''error'', JStr (describe ex)),
                (''metadata'', JObj [(''processor_name'', JStr ''payload_transformer'')])])"

section \<open>Sample collaborators\<close>

text \<open>
  The closed examples below run the handler against a fixed interpreter, JSON library
  and upstream. The two tables give what CPython answers on the texts the examples
  decode. \<open>eval\<close> accepts the dict displays, the one with single quotes included, and
  raises a \<open>NameError\<close> on \<open>oops\<close>. \<open>json.loads\<close> rejects the display with single
  quotes, and answers \<open>Expecting value: line 1 column 1 (char 0)\<close> on \<open>oops\<close>,
  \<open>Bad Request\<close> and \<open>not json\<close>, which the last branch covers; it reads the
  overflowing literal \<open>1e999\<close> as infinity, which the renderer of \<open>JSONResponse\<close>
  refuses. The examples decode and render no other value. The sample
  \<open>status_error_str\<close> stands for the message of \<open>raise_for_status\<close>, whose wording no
  example depends on.
\<close>

definition sample_loads :: "string \<Rightarrow> string + jv" where
  \<open>sample_loads s =
     (if s = ''{"a": 1}'' then Inr (JObj [(''a'', JInt 1)])
      else if s = ''{"b": 2}'' then Inr (JObj [(''b'', JInt 2)])
      else if s = ''{"result":"ok"}'' then Inr (JObj [(''result'', JStr ''ok'')])
      else if s = ''{"method": "ping"}'' then Inr (JObj [(''method'', JStr ''ping'')])
      else if s = ''{"x": 1e999}'' then Inr (JObj [(''x'', JFloat PosInf)])
      else if s = ''{'a': 1}'' then
        Inl ''Expecting property name enclosed in double quotes: line 1 column 2 (char 1)''
      else Inl ''Expecting value: line 1 column 1 (char 0)'')\<close>

definition sample_eval :: "string \<Rightarrow> pyobj option" where
  \<open>sample_eval s =
     (if s = ''{"a": 1}'' then Some (Json (JObj [(''a'', JInt 1)]))
      else if s = ''{"b": 2}'' then Some (Json (JObj [(''b'', JInt 2)]))
      else if s = ''{"result":"ok"}'' then Some (Json (JObj [(''result'', JStr ''ok'')]))
      else if s = ''{'a': 1}'' then Some (Json (JObj [(''a'', JInt 1)]))
      else None)\<close>

definition sample_render :: "jv \<Rightarrow> string option" where
  "sample_render v =
     (if v = JObj [(''x'', JFloat PosInf)] then
        Some ''Out of range float values are not JSON compliant''
      else None)"

definition sample_env :: "upstream_response \<Rightarrow> env" where
  "sample_env r =
     \<lparr>json_loads = sample_loads,
      py_eval = sample_eval,
      render_error = sample_render,
      http_post = (\<lambda>call. PostReturned r),
      status_error_str = (\<lambda>r. ''HTTP status error'')\<rparr>"

text \<open>\<open>str(e)\<close> of the one exception the transformer example raises.\<close>

definition sample_describe :: "pyexc \<Rightarrow> string" where
  "sample_describe ex = ''list indices must be integers or slices, not str''"

definition sample_request :: inbound_request where
  \<open>sample_request = \<lparr>wire_headers = [], req_body = ''{"method": "ping"}''\<rparr>\<close>

definition json_reply_with_session :: upstream_response where
  \<open>json_reply_with_session =
     \<lparr>status_code = 200,
      resp_headers = [(''content-type'', ''application/json''),
                      (''mcp-session-id'', ''abc123'')],
      resp_text = ''{"result":"ok"}''\<rparr>\<close>

definition sse_reply_with_session :: upstream_response where
  \<open>sse_reply_with_session =
     \<lparr>status_code = 200,
      resp_headers = [(''content-type'', ''text/event-stream''),
                      (''mcp-session-id'', ''abc123'')],
      resp_text = ''event: message\<newline>data: {"result":"ok"}\<newline>\<newline>''\<rparr>\<close>


definition sse_python_literal :: upstream_response where
  \<open>sse_python_literal =
     \<lparr>status_code = 200,
      resp_headers = [(''content-type'', ''text/event-stream'')],
      resp_text = ''data: {'a': 1}\<newline>\<newline>''\<rparr>\<close>

definition sse_without_data :: upstream_response where
  \<open>sse_without_data =
     \<lparr>status_code = 200,
      resp_headers = [(''content-type'', ''text/event-stream'')],
      resp_text = ''event: ping\<newline>: keepalive\<newline>\<newline>''\<rparr>\<close>

definition bad_request_reply :: upstream_response where
  \<open>bad_request_reply =
     \<lparr>status_code = 400,
      resp_headers = [(''content-type'', ''text/plain'')],
      resp_text = ''Bad Request''\<rparr>\<close>

definition json_charset_reply :: upstream_response where
  \<open>json_charset_reply =
     \<lparr>status_code = 200,
      resp_headers = [(''content-type'', ''application/json; charset=utf-8'')],
      resp_text = ''{"result":"ok"}''\<rparr>\<close>

definition sse_charset_reply :: upstream_response where
  \<open>sse_charset_reply =
     \<lparr>status_code = 200,
      resp_headers = [(''content-type'', ''text/event-stream; charset=utf-8'')],
      resp_text = ''data: {"result":"ok"}\<newline>\<newline>''\<rparr>\<close>

definition json_infinite_reply :: upstream_response where
  \<open>json_infinite_reply =
     \<lparr>status_code = 200,
      resp_headers = [(''content-type'', ''application/json'')],
      resp_text = ''{"x": 1e999}''\<rparr>\<close>

definition sse_leading_space :: upstream_response where
  \<open>sse_leading_space =
     \<lparr>status_code = 200,
      resp_headers = [(''content-type'', ''text/event-stream'')],
      resp_text = '' data: {"a": 1}\<newline>\<newline>''\<rparr>\<close>

definition sse_unavailable :: upstream_response where
  \<open>sse_unavailable =
     \<lparr>status_code = 503,
      resp_headers = [(''content-type'', ''text/event-stream'')],
      resp_text = ''event: ping\<newline>\<newline>''\<rparr>\<close>

definition json_plain_reply :: upstream_response where
  \<open>json_plain_reply =
     \<lparr>status_code = 200,
      resp_headers = [(''Content-Type'', ''application/json'')],
      resp_text = ''{"result":"ok"}''\<rparr>\<close>

section \<open>Header names and lookups\<close>

lemma lower_names:
  "lower ''MCP-Session-Id'' = ''mcp-session-id''"
  "lower ''Mcp-Session-Id'' = ''mcp-session-id''"
  "lower ''mcp-session-id'' = ''mcp-session-id''"
  "lower ''centian-url'' = ''centian-url''"
  "lower ''Content-Type'' = ''content-type''"
  "lower ''content-type'' = ''content-type''"
  by (simp_all add: lower_def ascii_lower_def)

lemma map_of_drop_other:
  "k \<noteq> k' \<Longrightarrow> map_of (filter (\<lambda>kv. fst kv \<noteq> k') hs) k = map_of hs k"
  by (induction hs) auto

text \<open>Deleting the target override leaves the session lookup alone.\<close>

lemma session_survives_del:
  "starlette_get (starlette_del hs ''centian-url'') ''mcp-session-id'' =
   starlette_get hs ''mcp-session-id''"
  by (simp add: starlette_get_def starlette_del_def lower_names map_of_drop_other)

text \<open>Both literal spellings of the source reach the same stored name.\<close>

lemma starlette_get_upper:
  "starlette_get hs ''MCP-Session-Id'' = starlette_get hs ''mcp-session-id''"
  by (simp add: starlette_get_def lower_names)

lemma build_proxy_headers_cases:
  "build_proxy_headers hs =
     (case starlette_get hs ''mcp-session-id'' of
        None \<Rightarrow>
          [''Content-Type'' \<mapsto> ''application/json'',
           ''Accept'' \<mapsto> ''application/json, text/event-stream'',
           ''User-Agent'' \<mapsto> USER_AGENT]
      | Some v \<Rightarrow>
          if v = [] then
            [''Content-Type'' \<mapsto> ''application/json'',
             ''Accept'' \<mapsto> ''application/json, text/event-stream'',
             ''User-Agent'' \<mapsto> USER_AGENT]
          else
            [''Content-Type'' \<mapsto> ''application/json'',
             ''Accept'' \<mapsto> ''application/json, text/event-stream'',
             ''User-Agent'' \<mapsto> USER_AGENT,
             ''mcp-session-id'' \<mapsto> v])"
  by (simp add: build_proxy_headers_def session_header_def starlette_get_upper
      split: option.splits)

lemma outbound_headers_cases:
  "call_headers (outbound req d) =
     (case starlette_get (asgi_headers (wire_headers req)) ''mcp-session-id'' of
        None \<Rightarrow>
          [''Content-Type'' \<mapsto> ''application/json'',
           ''Accept'' \<mapsto> ''application/json, text/event-stream'',
           ''User-Agent'' \<mapsto> USER_AGENT]
      | Some v \<Rightarrow>
          if v = [] then
            [''Content-Type'' \<mapsto> ''application/json'',
             ''Accept'' \<mapsto> ''application/json, text/event-stream'',
             ''User-Agent'' \<mapsto> USER_AGENT]
          else
            [''Content-Type'' \<mapsto> ''application/json'',
             ''Accept'' \<mapsto> ''application/json, text/event-stream'',
             ''User-Agent'' \<mapsto> USER_AGENT,
             ''mcp-session-id'' \<mapsto> v])"
  by (simp add: outbound_def Let_def build_proxy_headers_cases session_survives_del)

lemma asgi_first_match:
  assumes "lower k = name" and "\<forall>h\<in>set pre. lower (fst h) \<noteq> name"
  shows "map_of (asgi_headers (pre @ (k, v) # post)) name = Some v"
  using assms by (induction pre) (auto simp: asgi_headers_def)

lemma asgi_no_match:
  assumes "\<forall>h\<in>set wire. lower (fst h) \<noteq> name"
  shows "map_of (asgi_headers wire) name = None"
  using assms by (induction wire) (auto simp: asgi_headers_def)

lemma content_type_either_case:
  "httpx_get hs ''content-type'' = httpx_get hs ''Content-Type''"
  by (simp add: httpx_get_def lower_names)

lemma json_not_event_stream: "\<not> contains ''text/event-stream'' ''application/json''"
  by (simp add: startswith_def)

section \<open>The handler around the normaliser\<close>

text \<open>
  The normaliser runs on the replies that pass \<open>raise_for_status\<close>: for a body that
  decodes to a dict and an upstream reply with a 2xx status, the handler makes the one
  call and answers what the normaliser answers.
\<close>

lemma good_status_normalized:
  "is_success (status_code r) \<Longrightarrow> handle_response e r = normalize_response e r"
  by (auto simp add: handle_response_def is_success_def)

lemma handler_reaches_normalizer:
  "json_loads e (req_body req) = Inr (JObj kvs) \<Longrightarrow>
   http_post e (outbound req (JObj kvs)) = PostReturned r \<Longrightarrow>
   is_success (status_code r) \<Longrightarrow>
   proxy_mcp_request e req = ([outbound req (JObj kvs)], normalize_response e r)"
  by (simp add: proxy_mcp_request_def Let_def good_status_normalized)

text \<open>A failed call, and a reply with a status outside 2xx other than 400, are both
  reported as forwarding errors with status 500.\<close>

lemma transport_failure_classified:
  "json_loads e (req_body req) = Inr (JObj kvs) \<Longrightarrow>
   http_post e (outbound req (JObj kvs)) = PostHTTPError msg \<Longrightarrow>
   snd (proxy_mcp_request e req) = Raised 500 (''Error forwarding request: '' @ msg)"
  by (simp add: proxy_mcp_request_def Let_def)

lemma bad_status_classified:
  "\<not> is_success (status_code r) \<Longrightarrow> status_code r \<noteq> 400 \<Longrightarrow>
   handle_response e r = Raised 500 (''Error forwarding request: '' @ status_error_str e r)"
  by (simp add: handle_response_def)

lemma bad_request_with_json_body:
  "status_code r = 400 \<Longrightarrow> json_loads e (resp_text r) = Inr v \<Longrightarrow>
   handle_response e r = Raised 500 (''Error forwarding request: '' @ status_error_str e r)"
  by (simp add: handle_response_def is_success_def)

text \<open>The plain-JSON branch never passes headers on; the event-stream branch passes the
  session id of the upstream reply, when it has a non-empty one.\<close>

lemma json_path_has_no_headers:
  "\<not> contains ''text/event-stream'' (content_type r) \<Longrightarrow>
   normalize_response e r = Returned resp \<Longrightarrow>
   headers resp = Map.empty \<and> status resp = status_code r"
  by (auto simp: normalize_response_def normalize_json_def json_response_of_def
      split: if_splits sum.splits option.splits)

lemma sse_path_session_headers:
  "httpx_get hs ''mcp-session-id'' = Some v \<Longrightarrow> v \<noteq> [] \<Longrightarrow>
   sse_response_headers hs = [''mcp-session-id'' \<mapsto> v]"
  by (simp add: sse_response_headers_def response_session_def httpx_get_def lower_names)

section \<open>The scan of the event stream\<close>


lemma sse_scan_no_data:
  assumes "\<forall>l\<in>set ls. \<not> startswith ''data: '' l"
  shows "sse_scan e ls = None"
  using assms by (induction ls) auto

section \<open>Dict updates of the transformer\<close>

lemma map_of_dict_set: "map_of (dict_set kvs k v) k = Some v"
  by (induction kvs) auto

lemma dict_set_twice: "dict_set (dict_set kvs k a) k b = dict_set kvs k b"
  by (induction kvs) auto

lemma add_header_fresh:
  assumes "map_of p ''params'' = Some (JObj ps)" and "map_of ps ''arguments'' = None"
  shows "add_header (JObj p) =
           Inr (JObj (dict_set p ''params'' (JObj (dict_set ps ''arguments''
                  (JObj [(''x-processor'', JStr ''payload_transformer'')])))))"
  using assms
  by (simp add: add_header_def and_then_def py_getitem_def py_in_def py_setitem_def
      map_of_dict_set dict_set_twice)

lemma add_header_existing:
  assumes "map_of p ''params'' = Some (JObj ps)"
    and "map_of ps ''arguments'' = Some (JObj args)"
  shows "add_header (JObj p) =
           Inr (JObj (dict_set p ''params'' (JObj (dict_set ps ''arguments''
                  (JObj (dict_set args ''x-processor'' (JStr ''payload_transformer'')))))))"
  using assms
  by (simp add: add_header_def and_then_def py_getitem_def py_in_def py_setitem_def)

lemma process_metadata:
  assumes "process event = Inr res"
  shows "py_getitem res ''metadata'' =
           Inr (JObj [(''processor_name'', JStr ''payload_transformer''),
                      (''modifications'', JArr [])])"
  using assms
  by (auto simp: process_def and_then_def transformer_result_def py_getitem_def
      split: sum.splits)

section \<open>Evaluating the handler on the samples\<close>

lemmas sample_defs = sample_env_def sample_loads_def sample_eval_def sample_render_def

lemmas run_defs = proxy_mcp_request_def handle_response_def is_success_def
  normalize_response_def content_type_def httpx_get_def lower_def ascii_lower_def
  startswith_def normalize_json_def normalize_sse_def json_response_of_def py_strip_def
  py_isspace_def decode_payload_def sse_response_headers_def response_session_def
  parse_failure_def

text \<open>
  The plain-JSON branch on the exact content type: the decoded body goes to
  \<open>JSONResponse\<close>, the empty dict when the body does not decode. A body that decodes to
  a value the renderer refuses, such as an overflowing number, ends in the 500 exception.
\<close>

lemma json_exact_type_reply:
  assumes "is_success (status_code r)"
    and "httpx_get (resp_headers r) ''Content-Type'' = Some ''application/json''"
  shows "handle_response e r =
           (case json_loads e (resp_text r) of
              Inr v \<Rightarrow> json_response_of e v (status_code r) Map.empty
            | Inl msg \<Rightarrow>
                Returned \<lparr>content = JObj [], status = status_code r, headers = Map.empty\<rparr>)"
proof -
  have ct: "content_type r = ''application/json''"
    using assms(2) by (simp add: content_type_def content_type_either_case)
  have "\<not> contains ''text/event-stream'' (content_type r)"
    unfolding ct by (rule json_not_event_stream)
  then show ?thesis
    using assms
    by (simp add: good_status_normalized normalize_response_def normalize_json_def)
qed

lemma json_plain_reply_passes:
  \<open>handle_response (sample_env json_plain_reply) json_plain_reply =
     Returned \<lparr>content = JObj [(''result'', JStr ''ok'')], status = 200,
               headers = Map.empty\<rparr>\<close>
  by (simp add: sample_defs run_defs json_plain_reply_def)

lemma json_unrenderable_body:
  \<open>handle_response (sample_env json_infinite_reply) json_infinite_reply =
     Raised 500 ''Internal server error: Out of range float values are not JSON compliant''\<close>
  by (simp add: sample_defs run_defs json_infinite_reply_def)

section \<open>The claims\<close>

text \<open>
  C1. The claim asks that a session id carried by the upstream response comes back in the
  envelope under \<open>mcp-session-id\<close> on the event-stream path and on the plain-JSON path
  alike. The handler is run on two replies that differ only in encoding, both with status
  200 and the header \<open>mcp-session-id: abc123\<close>: the plain-JSON reply comes back with no
  header at all, the event-stream reply with the session id.
\<close>

theorem json_path_drops_session_id:
  \<open>snd (proxy_mcp_request (sample_env json_reply_with_session) sample_request) =
     Returned \<lparr>content = JObj [(''result'', JStr ''ok'')], status = 200,
               headers = Map.empty\<rparr> \<and>
   snd (proxy_mcp_request (sample_env sse_reply_with_session) sample_request) =
     Returned \<lparr>content = JObj [(''result'', JStr ''ok'')], status = 200,
               headers = [''mcp-session-id'' \<mapsto> ''abc123'']\<rparr>\<close>
  by (simp add: sample_defs run_defs sample_request_def json_reply_with_session_def
      sse_reply_with_session_def)




text \<open>
  C3. On a data line the remainder goes to \<open>eval\<close> first, and to the JSON decoder only
  when \<open>eval\<close> raises. So a text that the JSON decoder rejects and \<open>eval\<close> turns into a
  truthy value is accepted: the event-stream reply whose first line is the data line
  carrying it comes back with that value as payload and the upstream status, as long as
  \<open>JSONResponse\<close> renders the value; a value it refuses gives the 500 exception.
\<close>

theorem sse_eval_before_json:
  "(startswith ''data: '' line \<longrightarrow>
      sse_scan e (line # rest) =
        (case py_eval e (drop 6 line) of
           Some obj \<Rightarrow> Some obj
         | None \<Rightarrow>
             (case json_loads e (drop 6 line) of
                Inr v \<Rightarrow> Some (Json v)
              | Inl msg \<Rightarrow> sse_scan e rest))) \<and>
   (json_loads e t = Inl msg \<and> py_eval e t = Some (Json v) \<and> truthy v \<and>
    contains ''text/event-stream'' (content_type r) \<and>
    split_nl (py_strip (resp_text r)) = (''data: '' @ t) # others \<longrightarrow>
      normalize_response e r =
        (case render_error e v of
           None \<Rightarrow>
             Returned \<lparr>content = v, status = status_code r,
                       headers = sse_response_headers (resp_headers r)\<rparr>
         | Some refusal \<Rightarrow> Raised 500 (''Internal server error: '' @ refusal)))"
  by (simp add: decode_payload_def normalize_response_def normalize_sse_def startswith_def
      json_response_of_def split: option.splits sum.splits)

theorem sse_eval_before_json_witness:
  \<open>sample_loads ''{'a': 1}'' =
     Inl ''Expecting property name enclosed in double quotes: line 1 column 2 (char 1)'' \<and>
   sse_scan (sample_env sse_python_literal) [''data: {'a': 1}''] =
     Some (Json (JObj [(''a'', JInt 1)])) \<and>
   normalize_response (sample_env sse_python_literal) sse_python_literal =
     Returned \<lparr>content = JObj [(''a'', JInt 1)], status = 200, headers = Map.empty\<rparr>\<close>
  using sse_eval_before_json
    [where line = \<open>''data: {'a': 1}''\<close>
       and e = \<open>sample_env sse_python_literal\<close>
       and rest = \<open>[]\<close>
       and t = \<open>''{'a': 1}''\<close>
       and msg = \<open>''Expecting property name enclosed in double quotes: line 1 column 2 (char 1)''\<close>
       and v = \<open>JObj [(''a'', JInt 1)]\<close>
       and r = sse_python_literal
       and others = \<open>[]\<close>]
  by (simp add: sample_defs run_defs sse_python_literal_def)

text \<open>
  C4. When the inbound body does not decode as JSON, the handler makes no upstream call
  and raises the 500 exception whose detail is \<open>Internal server error: \<close> followed by
  the decoder's description of the malformed text; the caller receives status 500 with
  that detail.
\<close>

theorem malformed_body_fails_fast:
  assumes "json_loads e (req_body req) = Inl msg"
  shows "proxy_mcp_request e req = ([], Raised 500 (''Internal server error: '' @ msg)) \<and>
         deliver (snd (proxy_mcp_request e req)) =
           \<lparr>content = JObj [(''detail'', JStr (''Internal server error: '' @ msg))],
            status = 500, headers = Map.empty\<rparr>"
  using assms by (simp add: proxy_mcp_request_def deliver_def)

theorem malformed_body_fails_fast_witness:
  \<open>proxy_mcp_request (sample_env json_plain_reply)
     \<lparr>wire_headers = [(''Content-Type'', ''application/json'')], req_body = ''not json''\<rparr> =
     ([], Raised 500 ''Internal server error: Expecting value: line 1 column 1 (char 0)'')\<close>
  using malformed_body_fails_fast
    [where e = \<open>sample_env json_plain_reply\<close>
       and req = \<open>\<lparr>wire_headers = [(''Content-Type'', ''application/json'')],
                    req_body = ''not json''\<rparr>\<close>
       and msg = \<open>''Expecting value: line 1 column 1 (char 0)''\<close>]
  by (simp add: sample_defs)

text \<open>
  C5. The claim asks for a forwarding-error message on every upstream failure, a reply
  with a status outside 2xx included. The handler is run on an upstream reply with status
  400 and the plain-text body \<open>Bad Request\<close>: decoding the body for the log raises
  before the status is checked, and the caller gets the internal-error message instead.
\<close>

theorem bad_request_body_misclassified:
  \<open>snd (proxy_mcp_request (sample_env bad_request_reply) sample_request) =
     Raised 500 ''Internal server error: Expecting value: line 1 column 1 (char 0)''\<close>
  by (simp add: sample_defs run_defs sample_request_def bad_request_reply_def)

text \<open>
  C6. The claim asks that a reply declaring \<open>application/json\<close> comes back with its
  decoded body as payload. The handler is run on a reply with status 200 that declares
  \<open>application/json; charset=utf-8\<close> and carries a body that decodes: the payload that
  comes back is the empty dict. The test of the sibling branch is a substring test, and
  an event-stream reply with the same parameter comes back with its payload.
\<close>

theorem json_charset_payload_dropped:
  \<open>sample_loads (resp_text json_charset_reply) = Inr (JObj [(''result'', JStr ''ok'')]) \<and>
   snd (proxy_mcp_request (sample_env json_charset_reply) sample_request) =
     Returned \<lparr>content = JObj [], status = 200, headers = Map.empty\<rparr> \<and>
   snd (proxy_mcp_request (sample_env sse_charset_reply) sample_request) =
     Returned \<lparr>content = JObj [(''result'', JStr ''ok'')], status = 200,
               headers = Map.empty\<rparr>\<close>
  by (simp add: sample_defs run_defs sample_request_def json_charset_reply_def
      sse_charset_reply_def)

text \<open>
  C7. Whatever the inbound request, the handler makes no upstream call or exactly one,
  and the headers of that call are \<open>Content-Type\<close>, \<open>Accept\<close> and \<open>User-Agent\<close> with
  their fixed values, with or without \<open>mcp-session-id\<close>, and nothing else; the target
  override \<open>centian-url\<close> is not among them.
\<close>

theorem outbound_allow_list:
  "fst (proxy_mcp_request e req) = [] \<or>
   (\<exists>c. fst (proxy_mcp_request e req) = [c] \<and>
        (dom (call_headers c) = {''Content-Type'', ''Accept'', ''User-Agent''} \<or>
         dom (call_headers c) =
           {''Content-Type'', ''Accept'', ''User-Agent'', ''mcp-session-id''}) \<and>
        call_headers c ''Content-Type'' = Some ''application/json'' \<and>
        call_headers c ''Accept'' = Some ''application/json, text/event-stream'' \<and>
        call_headers c ''User-Agent'' = Some USER_AGENT \<and>
        call_headers c ''centian-url'' = None)"
  by (auto simp: proxy_mcp_request_def Let_def outbound_headers_cases
      split: sum.splits jv.splits post_outcome.splits option.splits)

text \<open>
  C8, as amended. For an upstream reply with a 2xx status whose content type contains
  \<open>text/event-stream\<close>: when the body, once the whitespace around it is stripped, has
  no line that starts with the data marker, the envelope has status 500 and its payload
  carries the raw, unstripped body text under \<open>raw\<close>; nothing is raised.
\<close>

theorem sse_without_data_line:
  assumes "is_success (status_code r)"
    and "contains ''text/event-stream'' (content_type r)"
    and "\<forall>l\<in>set (split_nl (py_strip (resp_text r))). \<not> startswith ''data: '' l"
  shows "handle_response e r =
           Returned \<lparr>content = JObj [(''error'', JStr ''Failed to parse streaming response''),
                                     (''raw'', JStr (resp_text r))],
                     status = 500,
                     headers = Map.empty\<rparr>"
  using assms
  by (simp add: good_status_normalized normalize_response_def normalize_sse_def
      sse_scan_no_data parse_failure_def)

theorem sse_without_data_line_witness:
  \<open>handle_response (sample_env sse_without_data) sse_without_data =
     Returned \<lparr>content = JObj [(''error'', JStr ''Failed to parse streaming response''),
                               (''raw'', JStr ''event: ping\<newline>: keepalive\<newline>\<newline>'')],
               status = 500,
               headers = Map.empty\<rparr>\<close>
  using sse_without_data_line
    [where r = sse_without_data and e = \<open>sample_env sse_without_data\<close>]
  by (simp add: sse_without_data_def is_success_def content_type_def httpx_get_def lower_def
      ascii_lower_def startswith_def py_strip_def py_isspace_def)

text \<open>
  C8, as stated, fails twice. In a body that opens with a space before \<open>data: \<close>, no
  line starts with the marker, yet the strip of line 101 makes the first line a data line
  and the envelope carries its payload with status 200. And a reply with status 503 and
  no data line at all is answered with the forwarding error, without the raw text.
\<close>

theorem sse_without_data_line_counterexample:
  \<open>filter (startswith ''data: '') (split_nl (resp_text sse_leading_space)) = [] \<and>
   handle_response (sample_env sse_leading_space) sse_leading_space =
     Returned \<lparr>content = JObj [(''a'', JInt 1)], status = 200, headers = Map.empty\<rparr> \<and>
   filter (startswith ''data: '') (split_nl (resp_text sse_unavailable)) = [] \<and>
   filter (startswith ''data: '') (split_nl (py_strip (resp_text sse_unavailable))) = [] \<and>
   handle_response (sample_env sse_unavailable) sse_unavailable =
     Raised 500 (''Error forwarding request: '' @
                 status_error_str (sample_env sse_unavailable) sse_unavailable)\<close>
  by (simp add: sample_defs run_defs sse_leading_space_def sse_unavailable_def)

text \<open>
  C9, as amended. When the first inbound header whose name is \<open>mcp-session-id\<close> in
  any casing has a non-empty value, the outbound headers are the three fixed ones and
  \<open>mcp-session-id\<close> with that value, and no other entry; when no inbound header has that
  name, the outbound headers are the three fixed ones alone.
\<close>

theorem session_id_forwarded:
  "(lower k = ''mcp-session-id'' \<and> (\<forall>h\<in>set pre. lower (fst h) \<noteq> ''mcp-session-id'') \<and>
    v \<noteq> [] \<longrightarrow>
      call_headers (outbound \<lparr>wire_headers = pre @ (k, v) # post, req_body = b\<rparr> d) =
        [''Content-Type'' \<mapsto> ''application/json'',
         ''Accept'' \<mapsto> ''application/json, text/event-stream'',
         ''User-Agent'' \<mapsto> USER_AGENT,
         ''mcp-session-id'' \<mapsto> v]) \<and>
   ((\<forall>h\<in>set wire. lower (fst h) \<noteq> ''mcp-session-id'') \<longrightarrow>
      call_headers (outbound \<lparr>wire_headers = wire, req_body = b\<rparr> d) =
        [''Content-Type'' \<mapsto> ''application/json'',
         ''Accept'' \<mapsto> ''application/json, text/event-stream'',
         ''User-Agent'' \<mapsto> USER_AGENT])"
  by (simp add: outbound_headers_cases starlette_get_def lower_names asgi_first_match
      asgi_no_match)

theorem session_id_forwarded_witness:
  \<open>call_headers
     (outbound \<lparr>wire_headers = [(''Accept'', ''*/*''), (''Mcp-Session-Id'', ''abc123''),
                                 (''centian-url'', ''http://localhost:9000/mcp'')],
                req_body = ''{"method": "ping"}''\<rparr>
        (JObj [(''method'', JStr ''ping'')])) ''mcp-session-id'' = Some ''abc123'' \<and>
   call_headers
     (outbound \<lparr>wire_headers = [(''Accept'', ''*/*'')], req_body = ''{"method": "ping"}''\<rparr>
        (JObj [(''method'', JStr ''ping'')])) ''mcp-session-id'' = None\<close>
  using session_id_forwarded
    [where k = \<open>''Mcp-Session-Id''\<close>
       and pre = \<open>[(''Accept'', ''*/*'')]\<close>
       and v = \<open>''abc123''\<close>
       and post = \<open>[(''centian-url'', ''http://localhost:9000/mcp'')]\<close>
       and wire = \<open>[(''Accept'', ''*/*'')]\<close>
       and b = \<open>''{"method": "ping"}''\<close>
       and d = \<open>JObj [(''method'', JStr ''ping'')]\<close>]
  by (simp add: lower_def ascii_lower_def)

text \<open>
  C9, as stated, fails: an inbound header \<open>Mcp-Session-Id\<close> with an empty value is
  present and the outbound headers have no session-id entry.
\<close>

theorem empty_session_id_counterexample:
  \<open>call_headers
     (outbound \<lparr>wire_headers = [(''Mcp-Session-Id'', '''')],
                req_body = ''{"method": "ping"}''\<rparr>
        (JObj [(''method'', JStr ''ping'')])) ''mcp-session-id'' = None\<close>
  by (simp add: outbound_headers_cases asgi_headers_def starlette_get_def lower_def
      ascii_lower_def)

text \<open>
  C10, as amended. When the payload of the event is a dict whose \<open>params\<close> is a dict
  whose \<open>arguments\<close>, if there, is a dict too, \<open>process\<close> stores
  \<open>x-processor = payload_transformer\<close> in \<open>payload.params.arguments\<close> (created empty
  when missing) and returns the payload with status 200; and whenever \<open>process\<close>
  returns, the metadata of the result lists no modification.
\<close>

theorem transformer_adds_header:
  "(map_of ev ''payload'' = Some (JObj p) \<and> map_of p ''params'' = Some (JObj ps) \<and>
    (map_of ps ''arguments'' = None \<and> args = [] \<or>
     map_of ps ''arguments'' = Some (JObj args)) \<longrightarrow>
      process (JObj ev) =
        Inr (JObj [(''status'', JInt 200),
                   (''payload'',
                      JObj (dict_set p ''params'' (JObj (dict_set ps ''arguments''
                        (JObj (dict_set args ''x-processor''
                                 (JStr ''payload_transformer''))))))),
                   (''error'', JNull),
                   (''metadata'', JObj [(''processor_name'', JStr ''payload_transformer''),
                                        (''modifications'', JArr [])])])) \<and>
   (process event = Inr res \<longrightarrow>
      py_getitem res ''metadata'' =
        Inr (JObj [(''processor_name'', JStr ''payload_transformer''),
                   (''modifications'', JArr [])]))"
proof (intro conjI impI)
  assume h: "map_of ev ''payload'' = Some (JObj p) \<and> map_of p ''params'' = Some (JObj ps) \<and>
    (map_of ps ''arguments'' = None \<and> args = [] \<or>
     map_of ps ''arguments'' = Some (JObj args))"
  then have pay: "map_of ev ''payload'' = Some (JObj p)"
    and par: "map_of p ''params'' = Some (JObj ps)" by simp_all
  from h consider (fresh) "map_of ps ''arguments'' = None" "args = []"
    | (existing) "map_of ps ''arguments'' = Some (JObj args)" by auto
  then have "add_header (JObj p) =
           Inr (JObj (dict_set p ''params'' (JObj (dict_set ps ''arguments''
                  (JObj (dict_set args ''x-processor'' (JStr ''payload_transformer'')))))))"
  proof cases
    case fresh
    then show ?thesis using add_header_fresh [OF par] by simp
  next
    case existing
    then show ?thesis using add_header_existing [OF par] by simp
  qed
  then show "process (JObj ev) =
        Inr (JObj [(''status'', JInt 200),
                   (''payload'',
                      JObj (dict_set p ''params'' (JObj (dict_set ps ''arguments''
                        (JObj (dict_set args ''x-processor''
                                 (JStr ''payload_transformer''))))))),
                   (''error'', JNull),
                   (''metadata'', JObj [(''processor_name'', JStr ''payload_transformer''),
                                        (''modifications'', JArr [])])])"
    using pay par
    by (simp add: process_def and_then_def py_getitem_def py_in_def transformer_result_def)
next
  assume "process event = Inr res"
  then show "py_getitem res ''metadata'' =
        Inr (JObj [(''processor_name'', JStr ''payload_transformer''),
                   (''modifications'', JArr [])])"
    by (rule process_metadata)
qed

theorem transformer_adds_header_witness:
  "process (JObj [(''type'', JStr ''request''),
                  (''payload'', JObj [(''method'', JStr ''tools/call''),
                                      (''params'', JObj [(''name'', JStr ''echo'')])])]) =
     Inr (JObj [(''status'', JInt 200),
                (''payload'',
                   JObj [(''method'', JStr ''tools/call''),
                         (''params'',
                            JObj [(''name'', JStr ''echo''),
                                  (''arguments'',
                                     JObj [(''x-processor'', JStr ''payload_transformer'')])])]),
                (''error'', JNull),
                (''metadata'', JObj [(''processor_name'', JStr ''payload_transformer''),
                                     (''modifications'', JArr [])])])"
  using transformer_adds_header
    [where ev = "[(''type'', JStr ''request''),
                  (''payload'', JObj [(''method'', JStr ''tools/call''),
                                      (''params'', JObj [(''name'', JStr ''echo'')])])]"
       and p = "[(''method'', JStr ''tools/call''), (''params'', JObj [(''name'', JStr ''echo'')])]"
       and ps = "[(''name'', JStr ''echo'')]"
       and args = "[]"]
  by simp

text \<open>
  C10, as stated, fails: JSON-RPC allows positional parameters, and on a payload whose
  \<open>params\<close> is a list the subscript assignment raises, so \<open>process\<close> returns nothing
  and \<open>main\<close> prints a result with status 500 and an empty payload.
\<close>

theorem transformer_array_params_counterexample:
  "process (JObj [(''payload'', JObj [(''method'', JStr ''sum''),
                                      (''params'', JArr [JInt 1, JInt 2])])]) = Inl TypeError \<and>
   main_result sample_describe
     (JObj [(''payload'', JObj [(''method'', JStr ''sum''),
                                (''params'', JArr [JInt 1, JInt 2])])]) =
     JObj [(''status'', JInt 500),
           (''payload'', JObj []),
           (''error'', JStr ''list indices must be integers or slices, not str''),
           (''metadata'', JObj [(''processor_name'', JStr ''payload_transformer'')])]"
  by (simp add: main_result_def process_def and_then_def py_getitem_def py_in_def
      add_header_def py_setitem_def sample_describe_def)

end
